theory Spec2Isabelle
  imports Main
begin

section \<open>Row types of the Select chip\<close>

text \<open>
  \<^verbatim>\<open>select.hpp\<close> includes \<^verbatim>\<open>prelude.hpp\<close>, which includes the generated header
  \<^verbatim>\<open>monerochan-recursion-core-sys-cbindgen.hpp\<close>. That header declares the four
  struct templates the materializers work on; it is generated and not among the
  sources. The field element type \<^verbatim>\<open>F\<close> is a template parameter: here the type
  variable \<open>'f\<close>, with \<^verbatim>\<open>F::one()\<close> the constant \<open>1\<close> of class \<open>one\<close>. The tuple types of
  \<^verbatim>\<open>vals\<close> and \<^verbatim>\<open>addrs\<close> are fixed by the absent header, so they are the type
  parameters \<open>'v\<close> and \<open>'a\<close>.
\<close>

text \<open>
  The statement \<^verbatim>\<open>cols.vals = event\<close> assigns the whole event to the \<^verbatim>\<open>vals\<close> member,
  so a \<^verbatim>\<open>SelectEvent<F>\<close> is itself the tuple that the specification calls the
  event's \<^verbatim>\<open>vals\<close>.
\<close>

type_synonym 'v SelectEvent = 'v

text \<open>Modelled from the spec: the declaration of \<^verbatim>\<open>SelectCols<F>\<close> is in the absent
  generated header. The main trace row mirrors the event's tuple positionally; the
  source writes its member \<^verbatim>\<open>vals\<close>.
\<close>

record 'v SelectCols =
  vals :: 'v

text \<open>Modelled from the spec: the declaration of \<^verbatim>\<open>SelectInstr<F>\<close> is in the absent
  generated header. The source reads its members \<^verbatim>\<open>addrs\<close>, \<^verbatim>\<open>mult1\<close> and \<^verbatim>\<open>mult2\<close>.
  The field names of the instruction carry the prefix \<open>i_\<close> because record fields
  share one name space.
\<close>

record ('f, 'a) SelectInstr =
  i_addrs :: 'a
  i_mult1 :: 'f
  i_mult2 :: 'f

text \<open>Modelled from the spec: the declaration of \<^verbatim>\<open>SelectPreprocessedCols<F>\<close> is in the
  absent generated header. The source writes its members \<^verbatim>\<open>is_real\<close>, \<^verbatim>\<open>addrs\<close>,
  \<^verbatim>\<open>mult1\<close> and \<^verbatim>\<open>mult2\<close>, which are all the members the specification lists.
\<close>

record ('f, 'a) SelectPreprocessedCols =
  is_real :: 'f
  addrs :: 'a
  mult1 :: 'f
  mult2 :: 'f

section \<open>The row materializers\<close>

text \<open>
  The destination row is passed by mutable reference in the source; here it is passed
  in and returned updated. Each C++ assignment is one record update, in source order.
\<close>

definition event_to_row :: "'v SelectEvent \<Rightarrow> 'v SelectCols \<Rightarrow> 'v SelectCols" where
  "event_to_row event cols = cols\<lparr>vals := event\<rparr>"

definition instr_to_row ::
  "('f::one, 'a) SelectInstr \<Rightarrow> ('f, 'a) SelectPreprocessedCols \<Rightarrow> ('f, 'a) SelectPreprocessedCols"
  where
  "instr_to_row instr cols =
     cols\<lparr>is_real := 1, addrs := i_addrs instr, mult1 := i_mult1 instr, mult2 := i_mult2 instr\<rparr>"

section \<open>Calls through references\<close>

text \<open>
  Both materializers take their input by \<^verbatim>\<open>const&\<close> and their destination by mutable
  reference. To state what a call leaves untouched, the objects live in a memory, one
  store per struct type, indexed by address. An event reference designates either a
  free-standing event or the \<^verbatim>\<open>vals\<close> member of a main trace row, which has the event's
  type (the assignment \<^verbatim>\<open>cols.vals = event\<close> is between the two), so the input of
  \<^verbatim>\<open>event_to_row\<close> may lie inside its own destination row.
\<close>

datatype event_ref = EventAt nat | ValsOf nat

record ('f, 'v, 'a) memory =
  events :: "nat \<Rightarrow> 'v SelectEvent"
  instrs :: "nat \<Rightarrow> ('f, 'a) SelectInstr"
  main_rows :: "nat \<Rightarrow> 'v SelectCols"
  prep_rows :: "nat \<Rightarrow> ('f, 'a) SelectPreprocessedCols"

fun read_event :: "('f, 'v, 'a) memory \<Rightarrow> event_ref \<Rightarrow> 'v SelectEvent" where
  "read_event mem (EventAt p) = events mem p"
| "read_event mem (ValsOf c) = vals (main_rows mem c)"

definition call_event_to_row ::
  "event_ref \<Rightarrow> nat \<Rightarrow> ('f, 'v, 'a) memory \<Rightarrow> ('f, 'v, 'a) memory" where
  "call_event_to_row event cols mem =
     mem\<lparr>main_rows := (main_rows mem)
       (cols := event_to_row (read_event mem event) (main_rows mem cols))\<rparr>"

definition call_instr_to_row ::
  "nat \<Rightarrow> nat \<Rightarrow> ('f::one, 'v, 'a) memory \<Rightarrow> ('f, 'v, 'a) memory" where
  "call_instr_to_row instr cols mem =
     mem\<lparr>prep_rows := (prep_rows mem)
       (cols := instr_to_row (instrs mem instr) (prep_rows mem cols))\<rparr>"

section \<open>The trace matrices\<close>

text \<open>Modelled from the spec: the driver that invokes the materializers over the trace is
  not among the sources. The specification fixes the row-index assignment (row \<open>i\<close> of
  an output matrix belongs to input \<open>i\<close>), gives each invocation exclusive write access
  to its own row, and leaves the order in which the invocations complete open. A run
  is therefore the list of row indices in their order of completion; every invocation
  rewrites its row of the matrix in place.
\<close>

fun materialize_rows :: "('x \<Rightarrow> 'r \<Rightarrow> 'r) \<Rightarrow> nat list \<Rightarrow> 'x list \<Rightarrow> 'r list \<Rightarrow> 'r list" where
  "materialize_rows to_row [] inputs matrix = matrix"
| "materialize_rows to_row (i # order) inputs matrix =
     materialize_rows to_row order inputs (matrix[i := to_row (inputs ! i) (matrix ! i)])"

definition materialize_events ::
  "nat list \<Rightarrow> 'v SelectEvent list \<Rightarrow> 'v SelectCols list \<Rightarrow> 'v SelectCols list" where
  "materialize_events order evs matrix = materialize_rows event_to_row order evs matrix"

definition materialize_instrs ::
  "nat list \<Rightarrow> ('f::one, 'a) SelectInstr list \<Rightarrow> ('f, 'a) SelectPreprocessedCols list
     \<Rightarrow> ('f, 'a) SelectPreprocessedCols list" where
  "materialize_instrs order ins matrix = materialize_rows instr_to_row order ins matrix"

text \<open>Modelled from the spec: the code that produces padding rows is not among the sources.
  The specification has them produced by the implicit all-zero default of the row type:
  every member is the additive identity.
\<close>

definition default_preprocessed_row :: "('f::zero, 'a::zero) SelectPreprocessedCols" where
  "default_preprocessed_row = \<lparr>is_real = 0, addrs = 0, mult1 = 0, mult2 = 0\<rparr>"

text \<open>Modelled from the spec: a preprocessed matrix of \<open>n\<close> rows starts out as \<open>n\<close> default
  rows; the rows that are backed by a real instruction are then passed through
  \<^verbatim>\<open>instr_to_row\<close>.
\<close>

definition preprocessed_trace ::
  "nat \<Rightarrow> nat list \<Rightarrow> ('f::{zero,one}, 'a::zero) SelectInstr list
     \<Rightarrow> ('f, 'a) SelectPreprocessedCols list" where
  "preprocessed_trace n order ins =
     materialize_instrs order ins (replicate n default_preprocessed_row)"

text \<open>
  A small memory for concrete instances: every free-standing event is \<open>(7, 1, 2, 42)\<close>,
  every instruction selects branch A at addresses \<open>(7, 1, 2)\<close>, and the rows at address
  \<open>c\<close> hold values that differ from row to row.
\<close>

definition sample_memory :: "(int, int \<times> int \<times> int \<times> int, int \<times> int \<times> int) memory" where
  "sample_memory =
     \<lparr>events = (\<lambda>p. (7, 1, 2, 42)),
      instrs = (\<lambda>p. \<lparr>i_addrs = (7, 1, 2), i_mult1 = 1, i_mult2 = 0\<rparr>),
      main_rows = (\<lambda>c. \<lparr>vals = (int c, 5, 6, 8)\<rparr>),
      prep_rows = (\<lambda>c. \<lparr>is_real = 0, addrs = (3, 4, int c), mult1 = 9, mult2 = 9\<rparr>)\<rparr>"

section \<open>Auxiliary facts about a run over a matrix\<close>

lemma length_materialize_rows:
  "length (materialize_rows to_row order inputs matrix) = length matrix"
  by (induction order arbitrary: matrix) simp_all

lemma materialize_rows_untouched:
  "i \<notin> set order \<Longrightarrow> materialize_rows to_row order inputs matrix ! i = matrix ! i"
  by (induction order arbitrary: matrix) simp_all

lemma materialize_rows_touched:
  assumes overwrite: "\<And>x r. to_row x r = row_of x"
    and "i \<in> set order" and "i < length matrix"
  shows "materialize_rows to_row order inputs matrix ! i = row_of (inputs ! i)"
  using assms(2,3)
proof (induction order arbitrary: matrix)
  case Nil
  then show ?case by simp
next
  case (Cons j order)
  let ?m = "matrix[j := to_row (inputs ! j) (matrix ! j)]"
  show ?case
  proof (cases "i \<in> set order")
    case True
    with Cons.IH [of ?m] Cons.prems show ?thesis by simp
  next
    case False
    with Cons.prems have "j = i" by simp
    with False Cons.prems show ?thesis
      by (simp add: materialize_rows_untouched overwrite)
  qed
qed

lemma materialize_rows_all:
  assumes overwrite: "\<And>x r. to_row x r = row_of x"
    and cover: "set order = {..<length inputs}"
    and len: "length matrix = length inputs"
  shows "materialize_rows to_row order inputs matrix = map row_of inputs"
proof (rule nth_equalityI)
  show "length (materialize_rows to_row order inputs matrix) = length (map row_of inputs)"
    by (simp add: length_materialize_rows len)
next
  fix i
  assume "i < length (materialize_rows to_row order inputs matrix)"
  then have i: "i < length inputs"
    by (simp add: length_materialize_rows len)
  then have "i \<in> set order"
    by (simp add: cover)
  with i show "materialize_rows to_row order inputs matrix ! i = map row_of inputs ! i"
    by (simp add: materialize_rows_touched [OF overwrite] len)
qed

lemma materialize_rows_agree:
  assumes overwrite: "\<And>x r. to_row x r = row_of x"
    and same: "set order1 = set order2"
    and len: "length m1 = length m2"
    and rest: "\<forall>i<length m1. i \<notin> set order1 \<longrightarrow> m1 ! i = m2 ! i"
  shows "materialize_rows to_row order1 inputs m1 = materialize_rows to_row order2 inputs m2"
proof (rule nth_equalityI)
  show "length (materialize_rows to_row order1 inputs m1)
          = length (materialize_rows to_row order2 inputs m2)"
    by (simp add: length_materialize_rows len)
next
  fix i
  assume "i < length (materialize_rows to_row order1 inputs m1)"
  then have i: "i < length m1"
    by (simp add: length_materialize_rows)
  show "materialize_rows to_row order1 inputs m1 ! i
          = materialize_rows to_row order2 inputs m2 ! i"
  proof (cases "i \<in> set order1")
    case True
    then have "i \<in> set order2"
      by (simp add: same)
    with True i len show ?thesis
      by (simp add: materialize_rows_touched [OF overwrite])
  next
    case False
    then have "i \<notin> set order2"
      by (simp add: same)
    with False i rest show ?thesis
      by (simp add: materialize_rows_untouched)
  qed
qed

lemma event_to_row_overwrites: "event_to_row e row = \<lparr>vals = e\<rparr>"
  by (simp add: event_to_row_def)

lemma instr_to_row_overwrites:
  "instr_to_row i row =
     \<lparr>is_real = 1, addrs = i_addrs i, mult1 = i_mult1 i, mult2 = i_mult2 i\<rparr>"
  by (simp add: instr_to_row_def)

section \<open>Transcription\<close>

text \<open>
  C1. For every event and every destination row, the row's \<^verbatim>\<open>vals\<close> after
  \<^verbatim>\<open>event_to_row\<close> is the event's tuple itself: the same elements in the same
  positions, nothing reordered or recomputed.
\<close>

theorem event_to_row_roundtrip: "vals (event_to_row e row) = e"
  by (simp add: event_to_row_def)

text \<open>
  C2. For every instruction and every destination preprocessed row, the row after
  \<^verbatim>\<open>instr_to_row\<close> has \<^verbatim>\<open>is_real\<close> equal to the field's one, and its \<^verbatim>\<open>addrs\<close>,
  \<^verbatim>\<open>mult1\<close> and \<^verbatim>\<open>mult2\<close> are those of the instruction.
\<close>

theorem instr_to_row_fields:
  "is_real (instr_to_row i row) = 1 \<and>
   addrs (instr_to_row i row) = i_addrs i \<and>
   mult1 (instr_to_row i row) = i_mult1 i \<and>
   mult2 (instr_to_row i row) = i_mult2 i"
  by (simp add: instr_to_row_def)

text \<open>
  C3. Two instructions with the same \<^verbatim>\<open>addrs\<close> and swapped multiplicities (the first
  with \<^verbatim>\<open>mult1 = 1\<close>, \<^verbatim>\<open>mult2 = 0\<close>, the second with \<^verbatim>\<open>mult1 = 0\<close>, \<^verbatim>\<open>mult2 = 1\<close>)
  give rows with identical \<^verbatim>\<open>addrs\<close> and a flipped multiplicity pair. The destination
  rows are arbitrary and \<^verbatim>\<open>instr_to_row\<close> has no event parameter, so the multiplicities
  written are those of the instruction whatever any event holds.
\<close>

theorem instr_to_row_swapped_multiplicities:
  fixes i1 i2 :: "('f::{zero,one}, 'a) SelectInstr"
  assumes "i_addrs i1 = i_addrs i2"
    and "i_mult1 i1 = 1" and "i_mult2 i1 = 0"
    and "i_mult1 i2 = 0" and "i_mult2 i2 = 1"
  shows "addrs (instr_to_row i1 row1) = addrs (instr_to_row i2 row2) \<and>
         mult1 (instr_to_row i1 row1) = 1 \<and> mult2 (instr_to_row i1 row1) = 0 \<and>
         mult1 (instr_to_row i2 row2) = 0 \<and> mult2 (instr_to_row i2 row2) = 1 \<and>
         mult1 (instr_to_row i1 row1) = mult2 (instr_to_row i2 row2) \<and>
         mult2 (instr_to_row i1 row1) = mult1 (instr_to_row i2 row2)"
  using assms by (simp add: instr_to_row_def)

theorem instr_to_row_swapped_multiplicities_witness:
  "addrs (instr_to_row \<lparr>i_addrs = (7::int, 1::int, 2::int), i_mult1 = 1::int, i_mult2 = 0\<rparr>
            (prep_rows sample_memory 0))
     = addrs (instr_to_row \<lparr>i_addrs = (7, 1, 2), i_mult1 = 0, i_mult2 = 1\<rparr>
            (prep_rows sample_memory 1)) \<and>
   mult1 (instr_to_row \<lparr>i_addrs = (7::int, 1::int, 2::int), i_mult1 = 1::int, i_mult2 = 0\<rparr>
            (prep_rows sample_memory 0))
     = mult2 (instr_to_row \<lparr>i_addrs = (7::int, 1::int, 2::int), i_mult1 = 0::int, i_mult2 = 1\<rparr>
            (prep_rows sample_memory 1)) \<and>
   mult2 (instr_to_row \<lparr>i_addrs = (7::int, 1::int, 2::int), i_mult1 = 1::int, i_mult2 = 0\<rparr>
            (prep_rows sample_memory 0))
     = mult1 (instr_to_row \<lparr>i_addrs = (7::int, 1::int, 2::int), i_mult1 = 0::int, i_mult2 = 1\<rparr>
            (prep_rows sample_memory 1))"
  using instr_to_row_swapped_multiplicities
    [of "\<lparr>i_addrs = (7::int, 1::int, 2::int), i_mult1 = 1::int, i_mult2 = 0\<rparr>"
        "\<lparr>i_addrs = (7, 1, 2), i_mult1 = 0, i_mult2 = 1\<rparr>"
        "prep_rows sample_memory 0" "prep_rows sample_memory 1"]
  by simp

text \<open>
  C4. The event \<open>(7, 1, 2, 42)\<close> materializes to the main row \<open>(7, 1, 2, 42)\<close>, and the
  instruction with \<^verbatim>\<open>addrs = (7, 1, 2)\<close>, \<^verbatim>\<open>mult1 = 1\<close>, \<^verbatim>\<open>mult2 = 0\<close> materializes to
  the preprocessed row with \<^verbatim>\<open>is_real = 1\<close>, \<^verbatim>\<open>addrs = (7, 1, 2)\<close>, \<^verbatim>\<open>mult1 = 1\<close>,
  \<^verbatim>\<open>mult2 = 0\<close>, in every field and from every destination row.
\<close>

theorem select_scenario:
  fixes row :: "('f::field \<times> 'f \<times> 'f \<times> 'f) SelectCols"
    and prow :: "('f, 'f \<times> 'f \<times> 'f) SelectPreprocessedCols"
  shows "event_to_row (7, 1, 2, 42) row = \<lparr>vals = (7, 1, 2, 42)\<rparr> \<and>
         instr_to_row \<lparr>i_addrs = (7, 1, 2), i_mult1 = 1, i_mult2 = 0\<rparr> prow
           = \<lparr>is_real = 1, addrs = (7, 1, 2), mult1 = 1, mult2 = 0\<rparr>"
  by (simp add: event_to_row_def instr_to_row_def)

section \<open>Padding rows\<close>

text \<open>
  C5. In a preprocessed matrix of \<open>n\<close> rows whose real instructions fit in the trace
  and are materialized in any order, every row that is never passed through
  \<^verbatim>\<open>instr_to_row\<close> reads back with \<^verbatim>\<open>is_real = 0\<close> and \<^verbatim>\<open>addrs\<close>, \<^verbatim>\<open>mult1\<close>, \<^verbatim>\<open>mult2\<close>
  at the additive identity.
\<close>

theorem padding_row_reads_zero:
  fixes ins :: "('f::{zero,one}, 'a::zero) SelectInstr list"
  assumes "length ins \<le> n" and "set order \<subseteq> {..<length ins}"
    and "i < n" and "i \<notin> set order"
  shows "is_real (preprocessed_trace n order ins ! i) = 0 \<and>
         addrs (preprocessed_trace n order ins ! i) = 0 \<and>
         mult1 (preprocessed_trace n order ins ! i) = 0 \<and>
         mult2 (preprocessed_trace n order ins ! i) = 0"
proof -
  have "preprocessed_trace n order ins ! i = replicate n default_preprocessed_row ! i"
    using \<open>i \<notin> set order\<close>
    by (simp add: preprocessed_trace_def materialize_instrs_def materialize_rows_untouched)
  also have "\<dots> = default_preprocessed_row"
    using \<open>i < n\<close> by simp
  finally show ?thesis
    by (simp add: default_preprocessed_row_def)
qed

theorem padding_row_reads_zero_witness:
  "length [\<lparr>i_addrs = 7::int, i_mult1 = 1::int, i_mult2 = 0\<rparr>] \<le> 2 \<and>
   set [0::nat] \<subseteq> {..<length [\<lparr>i_addrs = 7::int, i_mult1 = 1::int, i_mult2 = 0\<rparr>]} \<and>
   (1::nat) < 2 \<and> 1 \<notin> set [0::nat] \<and>
   is_real (preprocessed_trace 2 [0] [\<lparr>i_addrs = 7::int, i_mult1 = 1::int, i_mult2 = 0\<rparr>] ! 1) = 0 \<and>
   addrs (preprocessed_trace 2 [0] [\<lparr>i_addrs = 7::int, i_mult1 = 1::int, i_mult2 = 0\<rparr>] ! 1) = 0 \<and>
   mult1 (preprocessed_trace 2 [0] [\<lparr>i_addrs = 7::int, i_mult1 = 1::int, i_mult2 = 0\<rparr>] ! 1) = 0 \<and>
   mult2 (preprocessed_trace 2 [0] [\<lparr>i_addrs = 7::int, i_mult1 = 1::int, i_mult2 = 0\<rparr>] ! 1) = 0"
proof -
  have h1: "length [\<lparr>i_addrs = 7::int, i_mult1 = 1::int, i_mult2 = 0\<rparr>] \<le> 2" by simp
  have h2: "set [0::nat] \<subseteq> {..<length [\<lparr>i_addrs = 7::int, i_mult1 = 1::int, i_mult2 = 0\<rparr>]}"
    by simp
  have h3: "(1::nat) < 2" by simp
  have h4: "1 \<notin> set [0::nat]" by simp
  from padding_row_reads_zero [OF h1 h2 h3 h4] h1 h2 h3 h4 show ?thesis
    by blast
qed

section \<open>Totality, determinism and frame\<close>

text \<open>
  C6. Both materializers are straight-line code with no branch and no failing
  operation; the tuple types of input and row agree by typing. For every event and
  every instruction, and from every destination row, the result is one fully
  determined row.
\<close>

theorem materializers_total:
  "event_to_row e row = \<lparr>vals = e\<rparr> \<and>
   instr_to_row i prow =
     \<lparr>is_real = 1, addrs = i_addrs i, mult1 = i_mult1 i, mult2 = i_mult2 i\<rparr>"
  by (simp add: event_to_row_def instr_to_row_def)

text \<open>
  C7. Two runs over the same event sequence, and over the same instruction sequence,
  that invoke the materializer on the same rows in any two orders of completion (the
  sequential order among them, an invocation possibly repeated) give the same
  matrices, whatever the rows they write held before, provided the two initial
  matrices have the same number of rows and agree on the rows that no invocation
  writes (the padding rows of the trace).
\<close>

theorem materialize_deterministic:
  fixes ins :: "('f::one, 'a) SelectInstr list"
  assumes "set order1 = set order2"
    and "length m1 = length m2"
    and "\<forall>i<length m1. i \<notin> set order1 \<longrightarrow> m1 ! i = m2 ! i"
    and "set order3 = set order4"
    and "length p1 = length p2"
    and "\<forall>i<length p1. i \<notin> set order3 \<longrightarrow> p1 ! i = p2 ! i"
  shows "materialize_events order1 evs m1 = materialize_events order2 evs m2 \<and>
         materialize_instrs order3 ins p1 = materialize_instrs order4 ins p2"
proof
  show "materialize_events order1 evs m1 = materialize_events order2 evs m2"
    unfolding materialize_events_def
    by (rule materialize_rows_agree [OF event_to_row_overwrites assms(1) assms(2) assms(3)])
next
  show "materialize_instrs order3 ins p1 = materialize_instrs order4 ins p2"
    unfolding materialize_instrs_def
    by (rule materialize_rows_agree [OF instr_to_row_overwrites assms(4) assms(5) assms(6)])
qed

theorem materialize_deterministic_witness:
  "set [0, 1] = set [1, 0, 1::nat] \<and>
   length [\<lparr>vals = (0::int, 0::int)\<rparr>, \<lparr>vals = (0, 0)\<rparr>, \<lparr>vals = (3, 4)\<rparr>]
     = length [\<lparr>vals = (5::int, 6::int)\<rparr>, \<lparr>vals = (8, 9)\<rparr>, \<lparr>vals = (3, 4)\<rparr>] \<and>
   [\<lparr>vals = (0::int, 0::int)\<rparr>, \<lparr>vals = (0, 0)\<rparr>, \<lparr>vals = (3, 4)\<rparr>] ! 2
     = [\<lparr>vals = (5, 6)\<rparr>, \<lparr>vals = (8, 9)\<rparr>, \<lparr>vals = (3, 4)\<rparr>] ! 2 \<and>
   set [0] = set [0, 0::nat] \<and>
   length [\<lparr>is_real = 3::int, addrs = 4::int, mult1 = 5, mult2 = 6\<rparr>, default_preprocessed_row]
     = length [default_preprocessed_row :: (int, int) SelectPreprocessedCols,
               default_preprocessed_row] \<and>
   [\<lparr>is_real = 3::int, addrs = 4::int, mult1 = 5, mult2 = 6\<rparr>, default_preprocessed_row] ! 1
     = [default_preprocessed_row, default_preprocessed_row] ! 1 \<and>
   materialize_events [0, 1] [(7::int, 1::int), (2, 42)]
       [\<lparr>vals = (0, 0)\<rparr>, \<lparr>vals = (0, 0)\<rparr>, \<lparr>vals = (3, 4)\<rparr>]
     = materialize_events [1, 0, 1] [(7, 1), (2, 42)]
       [\<lparr>vals = (5, 6)\<rparr>, \<lparr>vals = (8, 9)\<rparr>, \<lparr>vals = (3, 4)\<rparr>] \<and>
   materialize_instrs [0] [\<lparr>i_addrs = 7::int, i_mult1 = 1::int, i_mult2 = 0\<rparr>]
       [\<lparr>is_real = 3, addrs = 4, mult1 = 5, mult2 = 6\<rparr>, default_preprocessed_row]
     = materialize_instrs [0, 0] [\<lparr>i_addrs = 7, i_mult1 = 1, i_mult2 = 0\<rparr>]
       [default_preprocessed_row, default_preprocessed_row]"
proof -
  have h1: "set [0, 1] = set [1, 0, 1::nat]" by auto
  have h2: "length [\<lparr>vals = (0::int, 0::int)\<rparr>, \<lparr>vals = (0, 0)\<rparr>, \<lparr>vals = (3, 4)\<rparr>]
     = length [\<lparr>vals = (5::int, 6::int)\<rparr>, \<lparr>vals = (8, 9)\<rparr>, \<lparr>vals = (3, 4)\<rparr>]"
    by simp
  have h3: "\<forall>i<length [\<lparr>vals = (0::int, 0::int)\<rparr>, \<lparr>vals = (0, 0)\<rparr>, \<lparr>vals = (3, 4)\<rparr>].
      i \<notin> set [0, 1] \<longrightarrow>
      [\<lparr>vals = (0::int, 0::int)\<rparr>, \<lparr>vals = (0, 0)\<rparr>, \<lparr>vals = (3, 4)\<rparr>] ! i
        = [\<lparr>vals = (5, 6)\<rparr>, \<lparr>vals = (8, 9)\<rparr>, \<lparr>vals = (3, 4)\<rparr>] ! i"
    by (auto simp: less_Suc_eq)
  have h4: "set [0] = set [0, 0::nat]" by simp
  have h5: "length [\<lparr>is_real = 3::int, addrs = 4::int, mult1 = 5, mult2 = 6\<rparr>,
                    default_preprocessed_row]
     = length [default_preprocessed_row :: (int, int) SelectPreprocessedCols,
               default_preprocessed_row]"
    by simp
  have h6: "\<forall>i<length [\<lparr>is_real = 3::int, addrs = 4::int, mult1 = 5, mult2 = 6\<rparr>,
                default_preprocessed_row].
      i \<notin> set [0] \<longrightarrow>
      [\<lparr>is_real = 3::int, addrs = 4::int, mult1 = 5, mult2 = 6\<rparr>, default_preprocessed_row] ! i
        = [default_preprocessed_row, default_preprocessed_row] ! i"
    by (auto simp: less_Suc_eq)
  have r3: "[\<lparr>vals = (0::int, 0::int)\<rparr>, \<lparr>vals = (0, 0)\<rparr>, \<lparr>vals = (3, 4)\<rparr>] ! 2
     = [\<lparr>vals = (5, 6)\<rparr>, \<lparr>vals = (8, 9)\<rparr>, \<lparr>vals = (3, 4)\<rparr>] ! 2"
    by simp
  have r6: "[\<lparr>is_real = 3::int, addrs = 4::int, mult1 = 5, mult2 = 6\<rparr>,
             default_preprocessed_row] ! 1
     = [default_preprocessed_row, default_preprocessed_row] ! 1"
    by simp
  from materialize_deterministic [OF h1 h2 h3 h4 h5 h6] h1 h2 r3 h4 h5 r6
  show ?thesis by blast
qed

text \<open>
  C9. A call of either materializer leaves its input record as it was (also when the
  event is the \<^verbatim>\<open>vals\<close> member of a trace row, the destination row included), leaves
  every event, instruction and row of the other matrix as it was, and changes no row
  of its own matrix other than the destination row.
\<close>

theorem materializers_frame:
  "read_event (call_event_to_row er c mem) er = read_event mem er \<and>
   events (call_event_to_row er c mem) = events mem \<and>
   instrs (call_event_to_row er c mem) = instrs mem \<and>
   prep_rows (call_event_to_row er c mem) = prep_rows mem \<and>
   (\<forall>c'. c' \<noteq> c \<longrightarrow> main_rows (call_event_to_row er c mem) c' = main_rows mem c') \<and>
   instrs (call_instr_to_row ip c mem) = instrs mem \<and>
   events (call_instr_to_row ip c mem) = events mem \<and>
   main_rows (call_instr_to_row ip c mem) = main_rows mem \<and>
   (\<forall>c'. c' \<noteq> c \<longrightarrow> prep_rows (call_instr_to_row ip c mem) c' = prep_rows mem c')"
proof -
  have "read_event (call_event_to_row er c mem) er = read_event mem er"
    by (cases er) (simp_all add: call_event_to_row_def event_to_row_def)
  then show ?thesis
    by (simp add: call_event_to_row_def call_instr_to_row_def)
qed

theorem materializers_frame_witness:
  "(1::nat) \<noteq> 0 \<and>
   read_event (call_event_to_row (ValsOf 0) 0 sample_memory) (ValsOf 0)
     = read_event sample_memory (ValsOf 0) \<and>
   main_rows (call_event_to_row (ValsOf 0) 0 sample_memory) 1 = main_rows sample_memory 1 \<and>
   prep_rows (call_instr_to_row 0 0 sample_memory) 1 = prep_rows sample_memory 1"
proof -
  have h: "(1::nat) \<noteq> 0" by simp
  from materializers_frame [of "ValsOf 0" 0 sample_memory 0] h show ?thesis
    by blast
qed

text \<open>
  C10. The row a materializer leaves does not depend on what the destination row held
  before: for the same event, and for the same instruction, any two destination rows
  are equal afterwards.
\<close>

theorem materializers_ignore_prior_row:
  "event_to_row e row1 = event_to_row e row2 \<and> instr_to_row i prow1 = instr_to_row i prow2"
  by (simp add: event_to_row_def instr_to_row_def)

end
